theory Spec2Isabelle
  imports Complex_Main "HOL-Library.List_Lexorder"
begin

section \<open>Strings and numbers of the analyzer\<close>

text \<open>
  A Python \<open>str\<close> is a sequence of Unicode code points, compared lexicographically by
  code point; it is modelled as a list of naturals with the lexicographic order on lists.
  The labels of \<open>main.py\<close> contain CJK characters, which are written here by code point.
  Python numbers (\<open>int\<close>, \<open>float\<close>, Pillow's rational) are modelled as exact reals: the
  binary rounding error of a \<open>float\<close> is outside the model, and so are \<open>nan\<close> and \<open>inf\<close>.
\<close>

type_synonym pystr = "nat list"

definition asc :: "string \<Rightarrow> pystr" where
  "asc s = map of_char s"

text \<open>The characters that \<open>str.strip()\<close> removes: those for which \<open>str.isspace\<close> holds.\<close>

definition isspace :: "nat \<Rightarrow> bool" where
  "isspace c \<longleftrightarrow>
     (9 \<le> c \<and> c \<le> 13) \<or> (28 \<le> c \<and> c \<le> 32) \<or> c = 133 \<or> c = 160 \<or> c = 5760 \<or>
     (8192 \<le> c \<and> c \<le> 8202) \<or> c = 8232 \<or> c = 8233 \<or> c = 8239 \<or> c = 8287 \<or> c = 12288"

definition strip :: "pystr \<Rightarrow> pystr" where
  "strip s = rev (dropWhile isspace (rev (dropWhile isspace s)))"

text \<open>\<open>round(x)\<close>: to the nearest integer, a tie going to the even neighbour.\<close>

definition py_round :: "real \<Rightarrow> int" where
  "py_round x =
     (let f = \<lfloor>x\<rfloor>; d = x - of_int f
      in if d < 1 / 2 then f
         else if 1 / 2 < d then f + 1
         else if even f then f else f + 1)"

text \<open>\<open>round(x, 1)\<close>: to the nearest multiple of one tenth.\<close>

definition round1 :: "real \<Rightarrow> real" where
  "round1 x = of_int (py_round (x * 10)) / 10"

text \<open>\<open>str(n)\<close> for an integer, as the f-string of \<open>group_focal_length\<close> renders it.\<close>

fun digits :: "nat \<Rightarrow> pystr" where
  "digits n = (if n < 10 then [48 + n] else digits (n div 10) @ [48 + n mod 10])"

declare digits.simps [simp del]

definition str_int :: "int \<Rightarrow> pystr" where
  "str_int i = (if i < 0 then 45 # digits (nat (- i)) else digits (nat i))"

text \<open>\<open>os.path.basename\<close> and \<open>os.path.join\<close> of \<open>posixpath\<close>; 47 is the slash.\<close>

definition basename :: "pystr \<Rightarrow> pystr" where
  "basename p = rev (takeWhile (\<lambda>c. c \<noteq> 47) (rev p))"




section \<open>Data model\<close>

text \<open>The dictionary appended to \<open>focal_data\<close> for each analysed image.\<close>

record image_record =
  filename :: pystr
  original_focal :: "real option"
  camera_model :: "pystr option"
  equivalent_focal :: "real option"
  focal_group :: pystr

text \<open>A value of \<open>missing_exif_data\<close>, written by \<open>handle_missing_exif\<close>.\<close>

record elicited_entry =
  e_focal_length :: real
  e_crop_factor :: real
  e_equivalent_focal :: real
  e_sensor_choice :: pystr
  e_timestamp :: nat

type_synonym store = "pystr \<rightharpoonup> elicited_entry"

text \<open>The file \<open>missing_exif_data.json\<close>: absent, unreadable, or holding a store.\<close>

datatype json_file = Absent | Corrupt | Content store

datatype error = EOFError | IndexError

text \<open>What the program prints, one constructor for each \<open>print\<close> and \<open>input\<close> prompt.\<close>

datatype message =
    Msg_using_saved pystr
  | Msg_missing_exif pystr
  | Msg_enter_manually
  | Prompt_focal
  | Msg_skipped pystr
  | Msg_invalid_number
  | Msg_sensor_menu
  | Prompt_sensor
  | Msg_saved
  | Msg_save_failed
  | Msg_load_failed
  | Msg_start
  | Msg_processing pystr
  | Msg_found_missing nat

text \<open>
  The mutable part of a run: the analyzer's \<open>missing_exif_data\<close>, the console (the lines
  still to be typed and what has been printed), the JSON file, whether it can be written,
  and the clock read for the timestamp.
\<close>

record state =
  missing_exif_data :: store
  stdin :: "pystr list"
  stdout :: "message list"
  json :: json_file
  writable :: bool
  now :: nat

record analysis_result =
  dataframe :: "image_record list"
  group_stats :: "(pystr \<times> nat) list"
  focal_stats :: "(real \<times> nat) list"
  total_images :: nat

section \<open>Tables\<close>

text \<open>
  \<open>_define_focal_groups\<close>: the dictionary in insertion order. The labels start with
  U+8D85 U+5E7F U+89D2 (ultra wide), U+5E7F U+89D2 (wide), U+6807 U+51C6 (standard),
  U+4EBA U+50CF (portrait), U+4E2D U+957F U+7126 (medium tele), U+957F U+7126 (tele),
  U+8D85 U+957F U+7126 (super tele).
\<close>

definition label_ultrawide_14 :: pystr where
  "label_ultrawide_14 = [36229, 24191, 35282] @ asc ''(14-19mm)''"

definition label_wide :: pystr where
  "label_wide = [24191, 35282] @ asc '' (24-28mm)''"

definition label_standard :: pystr where
  "label_standard = [26631, 20934] @ asc '' (50mm)''"

definition label_portrait :: pystr where
  "label_portrait = [20154, 20687] @ asc '' (85mm)''"

definition label_medium_tele :: pystr where
  "label_medium_tele = [20013, 38271, 28966] @ asc '' (100-135mm)''"

definition focal_groups :: "(pystr \<times> real \<times> real) list" where
  "focal_groups =
     [(label_ultrawide_14, 14, 19),
      ([36229, 24191, 35282] @ asc ''(20-23mm)'', 20, 23),
      (label_wide, 24, 28),
      ([26631, 20934, 24191, 35282] @ asc '' (35mm)'', 29, 40),
      (label_standard, 41, 65),
      (label_portrait, 66, 95),
      (label_medium_tele, 95, 149),
      ([38271, 28966] @ asc '' (200mm)'', 150, 250),
      ([36229, 38271, 28966] @ asc '' (300mm)'', 251, 349),
      ([36229, 38271, 28966] @ asc '' (400mm)'', 350, 449),
      ([36229, 38271, 28966] @ asc '' (500-600mm)'', 450, 649),
      ([36229, 38271, 28966] @ asc '' (600mm+)'', 650, 2000)]"

text \<open>The label for an absent focal length (U+672A U+77E5 U+7126 U+6BB5).\<close>

definition unknown_label :: pystr where
  "unknown_label = [26410, 30693, 28966, 27573]"


text \<open>The dictionary \<open>crop_factors\<close> local to \<open>handle_missing_exif\<close>, keys '1' to '5'.\<close>

definition sensor_crop_factors :: "pystr \<rightharpoonup> real" where
  "sensor_crop_factors =
     map_of [([49], 1), ([50], 3 / 2), ([51], 8 / 5), ([52], 2), ([53], 27 / 10)]"


section \<open>Normalization engine\<close>



text \<open>The loop of \<open>group_focal_length\<close> over the groups: the first match returns.\<close>

fun first_group :: "(pystr \<times> real \<times> real) list \<Rightarrow> real \<Rightarrow> pystr option" where
  "first_group [] x = None"
| "first_group ((group_name, min_f, max_f) # gs) x =
     (if min_f \<le> x \<and> x \<le> max_f then Some group_name else first_group gs x)"

definition group_focal_length :: "real option \<Rightarrow> pystr" where
  "group_focal_length focal_length =
     (case focal_length of
        None \<Rightarrow> unknown_label
      | Some x \<Rightarrow>
          (case first_group focal_groups x of
             Some group_name \<Rightarrow> group_name
           | None \<Rightarrow> str_int (py_round x) @ asc ''mm''))"

section \<open>Missing-data resolver\<close>

definition print :: "message list \<Rightarrow> state \<Rightarrow> state" where
  "print ms st = st\<lparr>stdout := stdout st @ ms\<rparr>"

text \<open>\<open>_load_missing_exif_data\<close>: the store and what is printed while loading.\<close>

definition load_missing_exif_data :: "json_file \<Rightarrow> store \<times> message list" where
  "load_missing_exif_data f =
     (case f of
        Content m \<Rightarrow> (m, [])
      | Absent \<Rightarrow> (Map.empty, [])
      | Corrupt \<Rightarrow> (Map.empty, [Msg_load_failed]))"

text \<open>
  \<open>save_missing_exif_data\<close>: a failed write is caught and reported, the store in memory
  stays as it is.
\<close>

definition save_missing_exif_data :: "state \<Rightarrow> state" where
  "save_missing_exif_data st =
     (if writable st
      then print [Msg_saved] (st\<lparr>json := Content (missing_exif_data st)\<rparr>)
      else print [Msg_save_failed] st)"

text \<open>The state in which a run starts: \<open>__init__\<close> loads the store from the file.\<close>

definition init :: "json_file \<Rightarrow> bool \<Rightarrow> nat \<Rightarrow> pystr list \<Rightarrow> state" where
  "init f w t lines =
     \<lparr>missing_exif_data = fst (load_missing_exif_data f),
      stdin = lines,
      stdout = snd (load_missing_exif_data f),
      json = f, writable = w, now = t\<rparr>"

text \<open>
  The \<open>while True\<close> loop of \<open>handle_missing_exif\<close>, reading the typed lines one by one.
  \<open>float_of\<close> stands for the built-in \<open>float\<close>, \<open>None\<close> being its \<open>ValueError\<close>.
  When no line is left \<open>input\<close> raises \<open>EOFError\<close>, which nothing catches.
\<close>

fun read_focal ::
  "(pystr \<Rightarrow> real option) \<Rightarrow> pystr \<Rightarrow> pystr list \<Rightarrow> message list
     \<Rightarrow> error + (real option \<times> pystr list \<times> message list)" where
  "read_focal float_of fname [] out = Inl EOFError"
| "read_focal float_of fname (l # ls) out =
     (let focal_input = strip l
      in if focal_input = [] then Inr (None, ls, out @ [Prompt_focal, Msg_skipped fname])
         else (case float_of focal_input of
                 Some focal_length \<Rightarrow> Inr (Some focal_length, ls, out @ [Prompt_focal])
               | None \<Rightarrow> read_focal float_of fname ls (out @ [Prompt_focal, Msg_invalid_number])))"

definition handle_missing_exif ::
  "(pystr \<Rightarrow> real option) \<Rightarrow> state \<Rightarrow> pystr \<Rightarrow> error + (real option \<times> state)" where
  "handle_missing_exif float_of st image_path =
     (let fname = basename image_path
      in case missing_exif_data st fname of
           Some data \<Rightarrow> Inr (Some (e_equivalent_focal data), print [Msg_using_saved fname] st)
         | None \<Rightarrow>
             (case read_focal float_of fname (stdin st)
                     (stdout st @ [Msg_missing_exif fname, Msg_enter_manually]) of
                Inl e \<Rightarrow> Inl e
              | Inr (None, ls, out) \<Rightarrow> Inr (None, st\<lparr>stdin := ls, stdout := out\<rparr>)
              | Inr (Some focal_length, ls, out) \<Rightarrow>
                  (case ls of
                     [] \<Rightarrow> Inl EOFError
                   | l # ls' \<Rightarrow>
                       (let sensor_choice = strip l;
                            crop_factor = (case sensor_crop_factors sensor_choice of
                                             Some c \<Rightarrow> c | None \<Rightarrow> 1);
                            equivalent_focal = focal_length * crop_factor;
                            entry = \<lparr>e_focal_length = focal_length,
                                     e_crop_factor = crop_factor,
                                     e_equivalent_focal = equivalent_focal,
                                     e_sensor_choice = sensor_choice,
                                     e_timestamp = now st\<rparr>;
                            st' = st\<lparr>missing_exif_data := (missing_exif_data st)(fname \<mapsto> entry),
                                     stdin := ls',
                                     stdout := out @ [Msg_sensor_menu, Prompt_sensor]\<rparr>
                        in Inr (Some equivalent_focal, save_missing_exif_data st')))))"

section \<open>Folder analysis\<close>






section \<open>Aggregator\<close>

text \<open>
  \<open>Series.value_counts()\<close>: each distinct value with its number of occurrences, the
  most frequent first. \<open>sort_index()\<close> then orders the entries by their key.
\<close>

definition value_counts :: "'a list \<Rightarrow> ('a \<times> nat) list" where
  "value_counts xs =
     sort_key (\<lambda>(k, c). - int c) (map (\<lambda>k. (k, count_list xs k)) (rev (remdups (rev xs))))"

text \<open>\<open>value_counts\<close> leaves absent values out (\<open>dropna=True\<close>).\<close>

definition dropna :: "'a option list \<Rightarrow> 'a list" where
  "dropna xs = concat (map (\<lambda>v. case v of None \<Rightarrow> [] | Some x \<Rightarrow> [x]) xs)"

definition sort_index :: "('a::linorder \<times> nat) list \<Rightarrow> ('a \<times> nat) list" where
  "sort_index ps = sort_key fst ps"

definition generate_statistics :: "image_record list \<Rightarrow> analysis_result option" where
  "generate_statistics focal_data =
     (if focal_data = [] then None
      else Some \<lparr>dataframe = focal_data,
                 group_stats = sort_index (value_counts (map focal_group focal_data)),
                 focal_stats =
                   sort_index (value_counts (dropna (map equivalent_focal focal_data))),
                 total_images = length focal_data\<rparr>)"

text \<open>
  The two values that \<open>print_statistics\<close> reports as the upgrade suggestion;
  \<open>index[0]\<close> of an empty index raises \<open>IndexError\<close>.
\<close>

definition most_used_group :: "analysis_result \<Rightarrow> error + pystr" where
  "most_used_group stats =
     (case group_stats stats of [] \<Rightarrow> Inl IndexError | (k, c) # _ \<Rightarrow> Inr k)"

definition most_used_focal :: "analysis_result \<Rightarrow> error + real" where
  "most_used_focal stats =
     (case focal_stats stats of [] \<Rightarrow> Inl IndexError | (k, c) # _ \<Rightarrow> Inr k)"

section \<open>Built-ins on plain ASCII text\<close>


definition is_digit :: "nat \<Rightarrow> bool" where
  "is_digit c \<longleftrightarrow> 48 \<le> c \<and> c \<le> 57"

definition nat_of_digits :: "pystr \<Rightarrow> nat" where
  "nat_of_digits ds = foldl (\<lambda>a c. 10 * a + (c - 48)) 0 ds"

definition float_plain :: "pystr \<Rightarrow> real option" where
  "float_plain s =
     (let ip = takeWhile is_digit s; rest = dropWhile is_digit s
      in if rest = [] then (if ip = [] then None else Some (real (nat_of_digits ip)))
         else if hd rest = 46 \<and> list_all is_digit (tl rest) \<and> (ip \<noteq> [] \<or> tl rest \<noteq> [])
         then Some (real (nat_of_digits ip)
                      + real (nat_of_digits (tl rest)) / 10 ^ length (tl rest))
         else None)"

section \<open>Rounding\<close>







section \<open>Conversion to the 35mm equivalent\<close>





section \<open>Focal groups\<close>

lemma first_group_label: "first_group gs x = Some l \<Longrightarrow> l \<in> fst ` set gs"
  by (induction gs x rule: first_group.induct) (auto split: if_splits)

lemma first_group_none:
  "(first_group gs x = None) = (\<forall>(l, lo, hi) \<in> set gs. \<not> (lo \<le> x \<and> x \<le> hi))"
  by (induction gs x rule: first_group.induct) auto

lemma first_group_first:
  assumes "i < length gs"
    and "fst (snd (gs ! i)) \<le> x \<and> x \<le> snd (snd (gs ! i))"
    and "\<forall>j<i. \<not> (fst (snd (gs ! j)) \<le> x \<and> x \<le> snd (snd (gs ! j)))"
  shows "first_group gs x = Some (fst (gs ! i))"
  using assms
proof (induction gs x arbitrary: i rule: first_group.induct)
  case (1 x)
  then show ?case by simp
next
  case (2 group_name min_f max_f gs x)
  show ?case
  proof (cases i)
    case 0
    with 2 show ?thesis by simp
  next
    case (Suc k)
    with 2(3,4) have "\<not> (min_f \<le> x \<and> x \<le> max_f)" by fastforce
    moreover have "first_group gs x = Some (fst (gs ! k))"
    proof (rule 2(1))
      show "\<not> (min_f \<le> x \<and> x \<le> max_f)" by fact
      show "k < length gs" using 2(2) Suc by simp
      show "fst (snd (gs ! k)) \<le> x \<and> x \<le> snd (snd (gs ! k))" using 2(3) Suc by simp
      show "\<forall>j<k. \<not> (fst (snd (gs ! j)) \<le> x \<and> x \<le> snd (snd (gs ! j)))"
        using 2(4) Suc by fastforce
    qed
    ultimately show ?thesis using Suc by auto
  qed
qed

lemma unknown_label_not_group: "unknown_label \<notin> fst ` set focal_groups"
  by (simp add: unknown_label_def focal_groups_def label_ultrawide_14_def label_wide_def
      label_standard_def label_portrait_def label_medium_tele_def asc_def)

lemma unknown_label_not_synthetic: "s @ asc ''mm'' \<noteq> unknown_label"
proof
  assume "s @ asc ''mm'' = unknown_label"
  then have "last (s @ asc ''mm'') = last unknown_label" by simp
  then show False by (simp add: asc_def unknown_label_def)
qed

lemma group_focal_length_known: "group_focal_length (Some x) \<noteq> unknown_label"
proof (cases "first_group focal_groups x")
  case None
  then show ?thesis
    by (simp add: group_focal_length_def unknown_label_not_synthetic)
next
  case (Some l)
  then have "l \<in> fst ` set focal_groups" by (rule first_group_label)
  with unknown_label_not_group have "l \<noteq> unknown_label" by metis
  with Some show ?thesis by (simp add: group_focal_length_def)
qed

lemma group_focal_length_in_group:
  assumes "(l, lo, hi) \<in> set focal_groups" and "lo \<le> x" and "x \<le> hi" and "x \<noteq> 95"
  shows "group_focal_length (Some x) = l"
  using assms unfolding group_focal_length_def focal_groups_def
  by (elim disjE | simp)+

text \<open>
  C4, as the code has it. \<open>group_focal_length\<close> returns the label for an unknown focal
  length if and only if its input is absent. For a value within the inclusive bounds of a
  group it returns the label of the first such group in the order of the table, which is
  exactly that group's label for every value other than 95, the one value that the bounds
  of two groups share. A value in no group gets its nearest integer followed by \<open>mm\<close>.
\<close>

theorem group_focal_length_classifies:
  "(group_focal_length focal = unknown_label) = (focal = None) \<and>
   (\<forall>i<length focal_groups.
      fst (snd (focal_groups ! i)) \<le> x \<and> x \<le> snd (snd (focal_groups ! i)) \<and>
      (\<forall>j<i. \<not> (fst (snd (focal_groups ! j)) \<le> x \<and> x \<le> snd (snd (focal_groups ! j))))
      \<longrightarrow> group_focal_length (Some x) = fst (focal_groups ! i)) \<and>
   (\<forall>(l, lo, hi) \<in> set focal_groups.
      lo \<le> x \<and> x \<le> hi \<and> x \<noteq> 95 \<longrightarrow> group_focal_length (Some x) = l) \<and>
   ((\<forall>(l, lo, hi) \<in> set focal_groups. \<not> (lo \<le> x \<and> x \<le> hi))
      \<longrightarrow> group_focal_length (Some x) = str_int (py_round x) @ asc ''mm'')"
proof (intro conjI)
  show "(group_focal_length focal = unknown_label) = (focal = None)"
  proof (cases focal)
    case None
    then show ?thesis by (simp add: group_focal_length_def)
  next
    case (Some x)
    then show ?thesis using group_focal_length_known [of x] by simp
  qed
  show "\<forall>i<length focal_groups.
      fst (snd (focal_groups ! i)) \<le> x \<and> x \<le> snd (snd (focal_groups ! i)) \<and>
      (\<forall>j<i. \<not> (fst (snd (focal_groups ! j)) \<le> x \<and> x \<le> snd (snd (focal_groups ! j))))
      \<longrightarrow> group_focal_length (Some x) = fst (focal_groups ! i)"
    by (simp add: group_focal_length_def first_group_first)
  show "\<forall>(l, lo, hi) \<in> set focal_groups.
      lo \<le> x \<and> x \<le> hi \<and> x \<noteq> 95 \<longrightarrow> group_focal_length (Some x) = l"
    using group_focal_length_in_group by blast
  show "(\<forall>(l, lo, hi) \<in> set focal_groups. \<not> (lo \<le> x \<and> x \<le> hi))
      \<longrightarrow> group_focal_length (Some x) = str_int (py_round x) @ asc ''mm''"
    using first_group_none [of focal_groups x] by (auto simp: group_focal_length_def)
qed

theorem group_focal_length_classifies_witness:
  "group_focal_length None = unknown_label \<and>
   group_focal_length (Some 95) = label_portrait \<and>
   group_focal_length (Some 85) = label_portrait \<and>
   group_focal_length (Some (39 / 2)) = asc ''20mm''"
proof -
  note c1 = group_focal_length_classifies [THEN conjunct1]
  note c2 = group_focal_length_classifies [THEN conjunct2, THEN conjunct1]
  note c3 = group_focal_length_classifies [THEN conjunct2, THEN conjunct2, THEN conjunct1]
  note c4 = group_focal_length_classifies [THEN conjunct2, THEN conjunct2, THEN conjunct2]
  have len: "5 < length focal_groups"
    by (simp add: focal_groups_def)
  have fifth: "focal_groups ! 5 = (label_portrait, 66, 95)"
    by (simp add: focal_groups_def)
  have less: "j = 0 \<or> j = 1 \<or> j = 2 \<or> j = 3 \<or> j = 4" if "j < 5" for j :: nat
    using that by linarith
  have earlier: "\<forall>j<5. \<not> (fst (snd (focal_groups ! j)) \<le> 95
      \<and> 95 \<le> snd (snd (focal_groups ! j)))"
  proof (intro allI impI)
    fix j :: nat
    assume "j < 5"
    then consider "j = 0" | "j = 1" | "j = 2" | "j = 3" | "j = 4"
      using less by blast
    then show "\<not> (fst (snd (focal_groups ! j)) \<le> 95 \<and> 95 \<le> snd (snd (focal_groups ! j)))"
      by cases (simp_all add: focal_groups_def)
  qed
  have mem: "(label_portrait, 66, 95) \<in> set focal_groups"
    by (simp add: focal_groups_def)
  have gap: "\<forall>(l, lo, hi) \<in> set focal_groups. \<not> (lo \<le> 39 / 2 \<and> 39 / 2 \<le> hi)"
    by (simp add: focal_groups_def)
  have s: "str_int (py_round (39 / 2)) @ asc ''mm'' = asc ''20mm''"
    by (simp add: py_round_def str_int_def asc_def digits.simps [of 20] digits.simps [of 2])
  have a: "group_focal_length None = unknown_label"
    using c1 [of None] by simp
  have "fst (snd (focal_groups ! 5)) \<le> 95 \<and> 95 \<le> snd (snd (focal_groups ! 5)) \<and>
      (\<forall>j<5. \<not> (fst (snd (focal_groups ! j)) \<le> 95 \<and> 95 \<le> snd (snd (focal_groups ! j))))"
    using earlier by (simp add: fifth)
  with c2 [of 95, THEN spec, of 5, THEN mp, OF len, THEN mp]
  have b: "group_focal_length (Some 95) = label_portrait"
    by (simp add: fifth)
  have c: "group_focal_length (Some 85) = label_portrait"
    using bspec [OF c3 [of 85] mem] by simp
  have d: "group_focal_length (Some (39 / 2)) = asc ''20mm''"
    using c4 [of "39 / 2", THEN mp, OF gap] s by simp
  from a b c d show ?thesis by simp
qed

text \<open>
  C4 as stated fails at 95: the value lies within the inclusive bounds of the medium tele
  group, and the label returned is not that group's.
\<close>

theorem group_focal_length_shared_bound:
  "(label_medium_tele, 95, 149) \<in> set focal_groups \<and>
   (95::real) \<le> 95 \<and> (95::real) \<le> 149 \<and>
   group_focal_length (Some 95) \<noteq> label_medium_tele"
  by (simp add: group_focal_length_def focal_groups_def label_medium_tele_def
      label_portrait_def asc_def)

section \<open>Crop factor of a camera model\<close>










section \<open>Properties of the missing-data resolver\<close>

lemma handle_missing_exif_stored:
  assumes "missing_exif_data st (basename p) = Some data"
  shows "handle_missing_exif float_of st p
    = Inr (Some (e_equivalent_focal data), print [Msg_using_saved (basename p)] st)"
  using assms by (simp add: handle_missing_exif_def)



lemma handle_missing_exif_store:
  assumes "handle_missing_exif float_of st p = Inr (Some e, st')"
  shows "\<exists>data. missing_exif_data st' (basename p) = Some data \<and> e_equivalent_focal data = e"
  using assms
  by (auto simp: handle_missing_exif_def Let_def print_def save_missing_exif_data_def
      split: option.splits sum.splits list.splits if_splits)

lemma handle_missing_exif_persisted:
  assumes "handle_missing_exif float_of st p = Inr (Some e, st')"
    and "missing_exif_data st (basename p) = None" and "writable st"
  shows "json st' = Content (missing_exif_data st')"
  using assms
  by (auto simp: handle_missing_exif_def Let_def print_def save_missing_exif_data_def
      split: option.splits sum.splits list.splits if_splits)

text \<open>
  C2 on the input where the code departs from it: for an image \<open>a.jpg\<close> that is not in
  the store, the typed focal length \<open>10.11\<close> and the sensor choice \<open>1\<close>,
  \<open>handle_missing_exif\<close> returns and stores the product 10.11 as it is, whereas the
  product rounded to one decimal place is 10.1.
\<close>

theorem handle_missing_exif_unrounded:
  "map_sum id (\<lambda>(r, st'). (r, map_option e_equivalent_focal (missing_exif_data st' (asc ''a.jpg''))))
     (handle_missing_exif float_plain (init Absent True 0 [asc ''10.11'', asc ''1''])
        (asc ''a.jpg''))
     = Inr (Some (1011 / 100), Some (1011 / 100)) \<and>
   round1 (1011 / 100 * 1) = 101 / 10"
  by (simp add: handle_missing_exif_def init_def load_missing_exif_data_def basename_def
      asc_def strip_def isspace_def float_plain_def is_digit_def nat_of_digits_def
      sensor_crop_factors_def save_missing_exif_data_def print_def round1_def py_round_def
      Let_def)

text \<open>
  C8. When the file name of the image is a key of the store, \<open>handle_missing_exif\<close>
  returns the stored equivalent focal length; no line is read, nothing is asked, the store
  and the file stay as they are, and a notice is the only thing printed. In particular,
  after an entry was elicited and written in one run, a run started from the file returns
  the same value for that file name without reading a line.
\<close>

theorem handle_missing_exif_reuses_stored:
  "(missing_exif_data st (basename p) = Some data \<longrightarrow>
      (\<exists>st'. handle_missing_exif float_of st p = Inr (Some (e_equivalent_focal data), st') \<and>
         stdin st' = stdin st \<and> missing_exif_data st' = missing_exif_data st \<and>
         json st' = json st \<and>
         stdout st' = stdout st @ [Msg_using_saved (basename p)])) \<and>
   (missing_exif_data st (basename p) = None \<and> writable st \<and>
    handle_missing_exif float_of st p = Inr (Some e, st1) \<longrightarrow>
      (\<exists>st2. handle_missing_exif float_of (init (json st1) w t lines) p = Inr (Some e, st2) \<and>
         stdin st2 = lines \<and> missing_exif_data st2 = missing_exif_data st1 \<and>
         json st2 = json st1 \<and>
         stdout st2 = [Msg_using_saved (basename p)]))"
proof (intro conjI impI)
  assume "missing_exif_data st (basename p) = Some data"
  then have "handle_missing_exif float_of st p
      = Inr (Some (e_equivalent_focal data), print [Msg_using_saved (basename p)] st)"
    by (rule handle_missing_exif_stored)
  then show "\<exists>st'. handle_missing_exif float_of st p = Inr (Some (e_equivalent_focal data), st') \<and>
      stdin st' = stdin st \<and> missing_exif_data st' = missing_exif_data st \<and>
      json st' = json st \<and> stdout st' = stdout st @ [Msg_using_saved (basename p)]"
    by (simp add: print_def)
next
  assume a: "missing_exif_data st (basename p) = None \<and> writable st \<and>
    handle_missing_exif float_of st p = Inr (Some e, st1)"
  then obtain data where d: "missing_exif_data st1 (basename p) = Some data"
      "e_equivalent_focal data = e"
    using handle_missing_exif_store by blast
  from a have j: "json st1 = Content (missing_exif_data st1)"
    using handle_missing_exif_persisted by blast
  let ?s = "init (json st1) w t lines"
  have s: "missing_exif_data ?s = missing_exif_data st1" "stdin ?s = lines" "stdout ?s = []"
      "json ?s = json st1"
    by (simp_all add: init_def load_missing_exif_data_def j)
  have "handle_missing_exif float_of ?s p
      = Inr (Some (e_equivalent_focal data), print [Msg_using_saved (basename p)] ?s)"
    by (rule handle_missing_exif_stored) (simp add: s d)
  then show "\<exists>st2. handle_missing_exif float_of ?s p = Inr (Some e, st2) \<and>
      stdin st2 = lines \<and> missing_exif_data st2 = missing_exif_data st1 \<and>
      json st2 = json st1 \<and> stdout st2 = [Msg_using_saved (basename p)]"
    by (simp add: print_def s d)
qed

theorem handle_missing_exif_reuses_stored_witness:
  "\<exists>st1 st2 st3.
     handle_missing_exif float_plain (init Absent True 7 [asc ''85'', asc ''3''])
       (asc ''in/a/x.jpg'') = Inr (Some 136, st1) \<and>
     handle_missing_exif float_plain (init (json st1) True 8 [asc ''50'']) (asc ''in/a/x.jpg'')
       = Inr (Some 136, st2) \<and>
     stdin st2 = [asc ''50''] \<and> stdout st2 = [Msg_using_saved (asc ''x.jpg'')] \<and>
     handle_missing_exif float_plain st1 (asc ''in/b/x.jpg'') = Inr (Some 136, st3) \<and>
     stdin st3 = stdin st1 \<and> missing_exif_data st3 = missing_exif_data st1"
proof -
  let ?s = "init Absent True 7 [asc ''85'', asc ''3'']"
  have b: "basename (asc ''in/a/x.jpg'') = asc ''x.jpg''"
      "basename (asc ''in/b/x.jpg'') = asc ''x.jpg''"
    by (simp_all add: basename_def asc_def)
  have n: "missing_exif_data ?s (basename (asc ''in/a/x.jpg'')) = None" "writable ?s"
    by (simp_all add: init_def load_missing_exif_data_def)
  have "\<exists>st1. handle_missing_exif float_plain ?s (asc ''in/a/x.jpg'') = Inr (Some 136, st1)"
    by (simp add: handle_missing_exif_def init_def load_missing_exif_data_def basename_def
        asc_def strip_def isspace_def float_plain_def is_digit_def nat_of_digits_def
        sensor_crop_factors_def Let_def)
  then obtain st1 where
    r: "handle_missing_exif float_plain ?s (asc ''in/a/x.jpg'') = Inr (Some 136, st1)" ..
  from handle_missing_exif_reuses_stored
    [where st = ?s and p = "asc ''in/a/x.jpg''" and float_of = float_plain and e = 136
      and ?st1.0 = st1 and w = True and t = 8 and lines = "[asc ''50'']", THEN conjunct2]
    n r
  obtain st2 where 2:
    "handle_missing_exif float_plain (init (json st1) True 8 [asc ''50'']) (asc ''in/a/x.jpg'')
       = Inr (Some 136, st2)"
    "stdin st2 = [asc ''50'']" "stdout st2 = [Msg_using_saved (asc ''x.jpg'')]"
    unfolding b by blast
  from handle_missing_exif_store [OF r] obtain data where
    d: "missing_exif_data st1 (basename (asc ''in/b/x.jpg'')) = Some data"
      "e_equivalent_focal data = 136"
    unfolding b by blast
  from handle_missing_exif_reuses_stored
    [where st = st1 and p = "asc ''in/b/x.jpg''" and float_of = float_plain and data = data,
      THEN conjunct1] d
  obtain st3 where 3:
    "handle_missing_exif float_plain st1 (asc ''in/b/x.jpg'') = Inr (Some 136, st3)"
    "stdin st3 = stdin st1" "missing_exif_data st3 = missing_exif_data st1"
    by auto
  from r 2 3 show ?thesis by blast
qed




section \<open>Properties of the aggregator\<close>

lemma distinct_keys_sort_key:
  "distinct (map fst (sort_key f ps)) = distinct (map fst ps)"
  by (simp add: distinct_map)

lemma value_counts_set:
  "set (value_counts xs) = (\<lambda>k. (k, count_list xs k)) ` set xs"
  by (simp add: value_counts_def)

lemma value_counts_distinct: "distinct (map fst (value_counts xs))"
  by (simp add: value_counts_def distinct_keys_sort_key comp_def)

lemma sort_index_set: "set (sort_index ps) = set ps"
  by (simp add: sort_index_def)

lemma sort_index_ascending:
  "distinct (map fst ps) \<Longrightarrow> sorted_wrt (<) (map fst (sort_index ps))"
  by (simp add: sort_index_def strict_sorted_iff distinct_keys_sort_key sorted_sort_key)

lemma dropna_set: "set (dropna vs) = {x. Some x \<in> set vs}"
  by (induction vs) (auto simp: dropna_def split: option.splits)

text \<open>
  C3, as the code has it. For a non-empty sequence of records \<open>generate_statistics\<close>
  returns a result in which the grouped counts have exactly the labels present, each with
  its number of records, in strictly ascending order of the label as a string (code point
  by code point), and the per-value counts have exactly the equivalent focal lengths
  present, each with its number of records, in strictly ascending numeric order.
\<close>

theorem generate_statistics_ordered:
  assumes "focal_data \<noteq> []"
  shows "\<exists>res. generate_statistics focal_data = Some res \<and>
    total_images res = length focal_data \<and>
    sorted_wrt (<) (map fst (group_stats res)) \<and>
    set (group_stats res)
      = (\<lambda>k. (k, count_list (map focal_group focal_data) k)) ` focal_group ` set focal_data \<and>
    sorted_wrt (<) (map fst (focal_stats res)) \<and>
    set (focal_stats res)
      = (\<lambda>k. (k, count_list (dropna (map equivalent_focal focal_data)) k))
          ` {x. Some x \<in> equivalent_focal ` set focal_data}"
  using assms
  by (simp add: generate_statistics_def sort_index_ascending value_counts_distinct
      sort_index_set value_counts_set dropna_set)

theorem generate_statistics_ordered_witness:
  "map_option (\<lambda>res. (group_stats res, focal_stats res, total_images res))
     (generate_statistics
        (map (\<lambda>(n, e). \<lparr>filename = n, original_focal = Some e, camera_model = None,
                 equivalent_focal = Some e, focal_group = group_focal_length (Some e)\<rparr>)
           [(asc ''a.jpg'', 10), (asc ''b.jpg'', 9), (asc ''c.jpg'', 10)]))
   = Some ([(asc ''10mm'', 2), (asc ''9mm'', 1)], [(9, 1), (10, 2)], 3)"
proof -
  let ?recs = "map (\<lambda>(n, e). \<lparr>filename = n, original_focal = Some e, camera_model = None,
                 equivalent_focal = Some e, focal_group = group_focal_length (Some e)\<rparr>)
           [(asc ''a.jpg'', 10::real), (asc ''b.jpg'', 9), (asc ''c.jpg'', 10)]"
  have ne: "?recs \<noteq> []" by simp
  have g: "group_focal_length (Some 10) = asc ''10mm''" "group_focal_length (Some 9) = asc ''9mm''"
    by (simp_all add: group_focal_length_def focal_groups_def py_round_def str_int_def asc_def
        digits.simps [of 10] digits.simps [of "Suc 0"] digits.simps [of 9])
  from generate_statistics_ordered [OF ne] obtain res where
    "generate_statistics ?recs = Some res" by blast
  then show ?thesis
    by (auto simp: generate_statistics_def g value_counts_def sort_index_def dropna_def asc_def
        numeral_2_eq_2 numeral_3_eq_3)
qed

text \<open>
  C3 as stated fails for the groups: for one image at 14 mm and one at 24 mm the grouped
  counts list the wide group before the ultra wide group, whereas the table of groups
  defines the ultra wide group first.
\<close>

theorem generate_statistics_group_order:
  "map_option (\<lambda>res. map fst (group_stats res))
     (generate_statistics
        (map (\<lambda>(n, e). \<lparr>filename = n, original_focal = Some e, camera_model = None,
                 equivalent_focal = Some e, focal_group = group_focal_length (Some e)\<rparr>)
           [(asc ''a.jpg'', 14), (asc ''b.jpg'', 24)]))
     = Some [label_wide, label_ultrawide_14] \<and>
   filter (\<lambda>l. l \<in> {label_wide, label_ultrawide_14}) (map fst focal_groups)
     = [label_ultrawide_14, label_wide]"
  by (simp add: generate_statistics_def group_focal_length_def focal_groups_def
      value_counts_def sort_index_def label_wide_def label_ultrawide_14_def
      label_standard_def label_portrait_def label_medium_tele_def asc_def)

text \<open>
  C1 on the input where the code departs from it: for images at 24, 50 and 50 mm the
  group and the value reported as most used are the wide group and 24, each counted once,
  while the standard group and 50 are counted twice.
\<close>

theorem most_used_is_first_key:
  "map_option (\<lambda>res. (most_used_group res, most_used_focal res, group_stats res, focal_stats res))
     (generate_statistics
        (map (\<lambda>(n, e). \<lparr>filename = n, original_focal = Some e, camera_model = None,
                 equivalent_focal = Some e, focal_group = group_focal_length (Some e)\<rparr>)
           [(asc ''a.jpg'', 24), (asc ''b.jpg'', 50), (asc ''c.jpg'', 50)]))
     = Some (Inr label_wide, Inr 24,
             [(label_wide, 1), (label_standard, 2)], [(24, 1), (50, 2)])"
  by (simp add: generate_statistics_def group_focal_length_def focal_groups_def
      value_counts_def sort_index_def dropna_def most_used_group_def most_used_focal_def
      label_wide_def label_ultrawide_14_def
      label_standard_def label_portrait_def label_medium_tele_def asc_def)

section \<open>Identifiers of the records\<close>







end
